theory Spec2Isabelle
  imports Main "HOL-Library.Word" "HOL-Library.Char_ord" "HOL-Library.Monad_Syntax"
begin

section \<open>The ASN.1 value-notation scanner of asn1go (scanner.go, decode.go)\<close>

text \<open>
  The scanner is a byte-driven state machine. A Go \<^verbatim>\<open>byte\<close> is an unsigned 8-bit
  value; it is modelled by \<^typ>\<open>char\<close>, which is exactly an 8-bit value, ordered as an
  unsigned number (\<open>HOL-Library.Char_ord\<close>), so that the character literals of the
  source are the character literals of the model. The byte counter is an
  \<^verbatim>\<open>int64\<close>: a 64-bit word, read in two's complement.

  Every state function mutates the scanner through a pointer and returns an opcode; the
  model passes the scanner in and returns the opcode with the updated scanner. A Go
  run-time panic (slicing or indexing out of range, calling a nil function value) is the
  result \<open>None\<close>.
\<close>

type_synonym byte = char
type_synonym int64 = "64 word"

subsection \<open>Data\<close>

text \<open>
  The message of a \<^verbatim>\<open>SyntaxError\<close> is either the constant text
  \<^verbatim>\<open>"unexpected end of JSON input"\<close> or the concatenation
  \<^verbatim>\<open>"invalid character " + quoteChar(c) + " " + context\<close>. The second is kept as the
  pair of the byte \<open>c\<close> and the context phrase, from which the text is determined
  (\<^verbatim>\<open>quoteChar\<close> renders one byte through the standard library's \<^verbatim>\<open>strconv.Quote\<close>).
\<close>

datatype message =
    InvalidCharacter byte string
  | UnexpectedEndOfJSONInput

record SyntaxError =
  msg :: message
  Offset :: int64

text \<open>The opcodes, in the order of the source's \<^verbatim>\<open>iota\<close> block.\<close>

datatype opcode =
    ScanContinue
  | ScanBeginLiteral
  | ScanBeginObject
  | ScanObjectKey
  | ScanObjectValue
  | ScanEndObject
  | ScanSkipSpace
  | ScanBeginType
  | ScanEndType
  | ScanBeginIdentifierOrType
  | ScanEndIdentifier
  | ScanEnd
  | ScanError

text \<open>The entries of the parse-state stack.\<close>

datatype parse_state =
    ParseObjectKey
  | ParseObjectValue
  | ParseIdentifier
  | ParseType
  | ParseValueName

text \<open>
  The field \<^verbatim>\<open>step\<close> holds a function value. The functions it can hold are the state
  functions of scanner.go, named here by a constructor each; \<open>NilFunc\<close> is the nil
  function value of a scanner that was never reset.
\<close>

datatype state_fn =
    NilFunc
  | StateError
  | StateBeginValue
  | StateEndValue
  | StateAssignmentOperator1
  | StateAssignmentOperator2
  | StateBeginName
  | StateInName
  | StateBeginValueName
  | StateInValueName
  | StateBeginObjectKeyOrEmpty
  | StateBeginObjectKey
  | StateInObjectKey
  | StateInOctetString
  | StateInHexadecimalString
  | StateSuffixAfterHexadecimalString
  | StateN
  | StateNu
  | StateNul
  | State1
  | State0
  | StateDot
  | StateDot0
  | StateE
  | StateESign
  | StateE0
  | StateBeginTop
  | StateEndTop

record scanner =
  step :: state_fn
  endTop :: bool
  parseState :: "parse_state list"
  err :: "SyntaxError option"
  bytes :: int64
  allowMultipleTopValues :: bool

definition maxNestingDepth :: nat where
  "maxNestingDepth = 10000"

subsection \<open>Byte classes\<close>

definition isSpace :: "byte \<Rightarrow> bool" where
  "isSpace c \<longleftrightarrow>
     c \<le> CHR '' '' \<and> (c = CHR '' '' \<or> c = CHR 0x09 \<or> c = CHR 0x0D \<or> c = CHR 0x0A)"

definition isAlpha :: "byte \<Rightarrow> bool" where
  "isAlpha c \<longleftrightarrow> c \<ge> CHR ''a'' \<and> c \<le> CHR ''z'' \<or> c \<ge> CHR ''A'' \<and> c \<le> CHR ''Z''"

definition isDigit :: "byte \<Rightarrow> bool" where
  "isDigit c \<longleftrightarrow> c \<ge> CHR ''0'' \<and> c \<le> CHR ''9''"

definition isLiteral :: "byte \<Rightarrow> bool" where
  "isLiteral c \<longleftrightarrow> isAlpha c \<or> isDigit c"

subsection \<open>Errors, reset and the parse-state stack\<close>

text \<open>\<^verbatim>\<open>stateError\<close>: the state after a syntax error.\<close>

definition stateError :: "scanner \<Rightarrow> byte \<Rightarrow> (opcode \<times> scanner) option" where
  "stateError s c = Some (ScanError, s)"

text \<open>\<^verbatim>\<open>scanner.error\<close> records an error and switches to the error state.\<close>

definition scanner_error :: "scanner \<Rightarrow> byte \<Rightarrow> string \<Rightarrow> opcode \<times> scanner" where
  "scanner_error s c context =
     (ScanError,
      s\<lparr>step := StateError,
        err := Some \<lparr>msg = InvalidCharacter c context, Offset = bytes s\<rparr>\<rparr>)"

text \<open>\<^verbatim>\<open>scanner.reset\<close>; the byte counter is deliberately left as it is.\<close>

definition reset :: "scanner \<Rightarrow> scanner" where
  "reset s = s\<lparr>step := StateBeginTop, parseState := [], err := None, endTop := False\<rparr>"

text \<open>
  \<^verbatim>\<open>scanner.pushParseState\<close>: the new entry is appended first, the length is compared
  with the limit afterwards.
\<close>

definition pushParseState ::
  "scanner \<Rightarrow> byte \<Rightarrow> parse_state \<Rightarrow> opcode \<Rightarrow> opcode \<times> scanner" where
  "pushParseState s c newParseState successState =
     (let s1 = s\<lparr>parseState := parseState s @ [newParseState]\<rparr> in
      if length (parseState s1) \<le> maxNestingDepth then (successState, s1)
      else scanner_error s1 c ''exceeded max depth'')"

text \<open>
  \<^verbatim>\<open>scanner.popParseState\<close>: on an empty stack \<^verbatim>\<open>n\<close> is \<open>-1\<close> and the slice expression
  \<^verbatim>\<open>s.parseState[0:n]\<close> panics.
\<close>

definition popParseState :: "scanner \<Rightarrow> scanner option" where
  "popParseState s =
     (if parseState s = [] then None
      else let s1 = s\<lparr>parseState := butlast (parseState s)\<rparr> in
        if parseState s1 = [] then Some (s1\<lparr>step := StateEndTop, endTop := True\<rparr>)
        else Some (s1\<lparr>step := StateEndValue\<rparr>))"

text \<open>
  The assignment \<^verbatim>\<open>n := len(s.parseState); s.parseState[n-1] = p\<close>, which panics on an
  empty stack.
\<close>

definition setTopParseState :: "scanner \<Rightarrow> parse_state \<Rightarrow> scanner option" where
  "setTopParseState s p =
     (if parseState s = [] then None
      else Some (s\<lparr>parseState := (parseState s)[length (parseState s) - 1 := p]\<rparr>))"

subsection \<open>The state functions\<close>

text \<open>\<^verbatim>\<open>stateEndTop\<close>: the state after finishing the top-level value.\<close>

definition stateEndTop :: "scanner \<Rightarrow> byte \<Rightarrow> (opcode \<times> scanner) option" where
  "stateEndTop s c =
     (if \<not> isSpace c \<and> allowMultipleTopValues s
      then Some (ScanContinue, s\<lparr>step := StateBeginTop\<rparr>)
      else Some (ScanEnd, s))"

text \<open>\<^verbatim>\<open>stateBeginTop\<close>: the state at the beginning of the top-level input.\<close>

definition stateBeginTop :: "scanner \<Rightarrow> byte \<Rightarrow> (opcode \<times> scanner) option" where
  "stateBeginTop s c =
     (if isSpace c then Some (ScanSkipSpace, s)
      else if isAlpha c
      then Some (pushParseState (s\<lparr>step := StateBeginName\<rparr>) c ParseIdentifier
                   ScanBeginIdentifierOrType)
      else Some (scanner_error s c ''looking for beginning of top value''))"

text \<open>\<^verbatim>\<open>stateBeginValue\<close>.\<close>

definition stateBeginValue :: "scanner \<Rightarrow> byte \<Rightarrow> (opcode \<times> scanner) option" where
  "stateBeginValue s c =
     (if isSpace c then Some (ScanSkipSpace, s)
      else if c = CHR ''{''
      then Some (pushParseState (s\<lparr>step := StateBeginObjectKeyOrEmpty\<rparr>) c ParseObjectKey
                   ScanBeginObject)
      else if c = CHR ''}''
      then do { s1 \<leftarrow> popParseState s; Some (ScanEndObject, s1) }
      else if c = CHR '':'' then Some (ScanObjectValue, s\<lparr>step := StateBeginValue\<rparr>)
      else if c = CHR 0x22 then Some (ScanBeginLiteral, s\<lparr>step := StateInOctetString\<rparr>)
      else if c = CHR 0x27 then Some (ScanBeginLiteral, s\<lparr>step := StateInHexadecimalString\<rparr>)
      else if c = CHR ''N'' then Some (ScanBeginLiteral, s\<lparr>step := StateN\<rparr>)
      else if CHR ''1'' \<le> c \<and> c \<le> CHR ''9'' then Some (ScanBeginLiteral, s\<lparr>step := State1\<rparr>)
      else Some (scanner_error s c ''looking for beginning of value''))"

text \<open>
  \<^verbatim>\<open>stateEndValue\<close>: the state after completing a value. In the \<^verbatim>\<open>parseObjectKey\<close> case a
  byte that is not a letter or digit leaves the \<^verbatim>\<open>switch\<close> and reaches the final
  \<^verbatim>\<open>"no idea what to do"\<close> error.
\<close>

definition stateEndValue :: "scanner \<Rightarrow> byte \<Rightarrow> (opcode \<times> scanner) option" where
  "stateEndValue s c =
     (let n = length (parseState s) in
      if n = 0 then stateEndTop (s\<lparr>step := StateEndTop, endTop := True\<rparr>) c
      else if isSpace c then Some (ScanSkipSpace, s\<lparr>step := StateEndValue\<rparr>)
      else case parseState s ! (n - 1) of
        ParseIdentifier \<Rightarrow>
          do { s1 \<leftarrow> popParseState s;
               if c = CHR '':'' then Some (ScanEndType, s1\<lparr>step := StateAssignmentOperator1\<rparr>)
               else if isLiteral c
               then Some (pushParseState (s1\<lparr>step := StateInName\<rparr>) c ParseType ScanBeginType)
               else Some (scanner_error s1 c ''after identifier or type'') }
      | ParseType \<Rightarrow>
          if c = CHR '':''
          then do { s1 \<leftarrow> popParseState s;
                    Some (ScanEndType, s1\<lparr>step := StateAssignmentOperator1\<rparr>) }
          else Some (scanner_error s c ''after type'')
      | ParseValueName \<Rightarrow>
          do { s1 \<leftarrow> popParseState s;
               if c = CHR '':'' then Some (ScanContinue, s1\<lparr>step := StateBeginValue\<rparr>)
               else Some (scanner_error s1 c ''after value name'') }
      | ParseObjectKey \<Rightarrow>
          if isLiteral c
          then Some (ScanObjectKey,
                 s\<lparr>parseState := (parseState s)[n - 1 := ParseObjectValue],
                   step := StateBeginValue\<rparr>)
          else Some (scanner_error s c ''no idea what to do'')
      | ParseObjectValue \<Rightarrow>
          if c = CHR '',''
          then Some (ScanObjectValue,
                 s\<lparr>parseState := (parseState s)[n - 1 := ParseObjectKey],
                   step := StateBeginObjectKey\<rparr>)
          else if c = CHR ''}''
          then do { s1 \<leftarrow> popParseState s; Some (ScanEndObject, s1) }
          else Some (scanner_error s c ''after object key:value pair''))"

text \<open>\<^verbatim>\<open>stateAssignmentOperator1\<close>, \<^verbatim>\<open>stateAssignmentOperator2\<close>: inside \<^verbatim>\<open>::=\<close>.\<close>

definition stateAssignmentOperator1 :: "scanner \<Rightarrow> byte \<Rightarrow> (opcode \<times> scanner) option" where
  "stateAssignmentOperator1 s c =
     (if c = CHR '':'' then Some (ScanContinue, s\<lparr>step := StateAssignmentOperator2\<rparr>)
      else Some (scanner_error s c ''in assignment operator (expected ':')''))"

definition stateAssignmentOperator2 :: "scanner \<Rightarrow> byte \<Rightarrow> (opcode \<times> scanner) option" where
  "stateAssignmentOperator2 s c =
     (if c = CHR ''='' then Some (ScanContinue, s\<lparr>step := StateBeginValueName\<rparr>)
      else Some (scanner_error s c ''in assignment operator (expected '=')''))"

text \<open>\<^verbatim>\<open>stateBeginName\<close>, \<^verbatim>\<open>stateInName\<close>: identifier or type.\<close>

definition stateBeginName :: "scanner \<Rightarrow> byte \<Rightarrow> (opcode \<times> scanner) option" where
  "stateBeginName s c =
     (if isAlpha c then Some (ScanBeginLiteral, s\<lparr>step := StateInName\<rparr>)
      else Some (scanner_error s c ''looking for beginning of identifier or type''))"

definition stateInName :: "scanner \<Rightarrow> byte \<Rightarrow> (opcode \<times> scanner) option" where
  "stateInName s c =
     (if isSpace c then Some (ScanContinue, s\<lparr>step := StateEndValue\<rparr>)
      else if isLiteral c \<or> c = CHR ''_'' then Some (ScanContinue, s)
      else Some (scanner_error s c ''in identifier or type''))"

text \<open>\<^verbatim>\<open>stateBeginValueName\<close>, \<^verbatim>\<open>stateInValueName\<close>: the value name after \<^verbatim>\<open>::=\<close>.\<close>

definition stateBeginValueName :: "scanner \<Rightarrow> byte \<Rightarrow> (opcode \<times> scanner) option" where
  "stateBeginValueName s c =
     (if isSpace c then Some (ScanSkipSpace, s)
      else if isAlpha c
      then Some (pushParseState (s\<lparr>step := StateInValueName\<rparr>) c ParseValueName
                   ScanBeginLiteral)
      else Some (scanner_error s c ''looking for beginning of value name''))"

definition stateInValueName :: "scanner \<Rightarrow> byte \<Rightarrow> (opcode \<times> scanner) option" where
  "stateInValueName s c =
     (if isSpace c then Some (ScanContinue, s\<lparr>step := StateEndValue\<rparr>)
      else if isLiteral c \<or> c = CHR ''_'' \<or> c = CHR ''-'' then Some (ScanContinue, s)
      else Some (scanner_error s c ''in value name''))"

text \<open>\<^verbatim>\<open>stateBeginObjectKey\<close>, \<^verbatim>\<open>stateBeginObjectKeyOrEmpty\<close>, \<^verbatim>\<open>stateInObjectKey\<close>.\<close>

definition stateBeginObjectKey :: "scanner \<Rightarrow> byte \<Rightarrow> (opcode \<times> scanner) option" where
  "stateBeginObjectKey s c =
     (if isSpace c then Some (ScanSkipSpace, s)
      else if isAlpha c then Some (ScanBeginLiteral, s\<lparr>step := StateInObjectKey\<rparr>)
      else Some (scanner_error s c ''looking for beginning of object key string''))"

definition stateBeginObjectKeyOrEmpty :: "scanner \<Rightarrow> byte \<Rightarrow> (opcode \<times> scanner) option" where
  "stateBeginObjectKeyOrEmpty s c =
     (if isSpace c then Some (ScanSkipSpace, s)
      else if c = CHR ''}''
      then do { s1 \<leftarrow> setTopParseState s ParseObjectValue; stateEndValue s1 c }
      else if c = CHR ''{''
      then do { s1 \<leftarrow> setTopParseState s ParseObjectValue;
                Some (pushParseState (s1\<lparr>step := StateBeginObjectKeyOrEmpty\<rparr>) c
                        ParseObjectKey ScanBeginObject) }
      else stateBeginObjectKey s c)"

definition stateInObjectKey :: "scanner \<Rightarrow> byte \<Rightarrow> (opcode \<times> scanner) option" where
  "stateInObjectKey s c =
     (if isSpace c
      then do { s1 \<leftarrow> setTopParseState s ParseObjectValue;
                Some (ScanContinue, s1\<lparr>step := StateBeginValue\<rparr>) }
      else Some (ScanContinue, s))"

text \<open>Octet strings and hexadecimal strings.\<close>

definition stateInOctetString :: "scanner \<Rightarrow> byte \<Rightarrow> (opcode \<times> scanner) option" where
  "stateInOctetString s c =
     (if c = CHR 0x22 then Some (ScanContinue, s\<lparr>step := StateEndValue\<rparr>)
      else if c < CHR 0x20 then Some (scanner_error s c ''in string literal'')
      else Some (ScanContinue, s))"

definition stateInHexadecimalString :: "scanner \<Rightarrow> byte \<Rightarrow> (opcode \<times> scanner) option" where
  "stateInHexadecimalString s c =
     (if c = CHR 0x27 then Some (ScanContinue, s\<lparr>step := StateSuffixAfterHexadecimalString\<rparr>)
      else if c < CHR 0x20 then Some (scanner_error s c ''in hexadecimal string literal'')
      else Some (ScanContinue, s))"

definition stateSuffixAfterHexadecimalString ::
  "scanner \<Rightarrow> byte \<Rightarrow> (opcode \<times> scanner) option" where
  "stateSuffixAfterHexadecimalString s c =
     (if c = CHR ''H'' then Some (ScanContinue, s\<lparr>step := StateEndValue\<rparr>)
      else Some (scanner_error s c ''in hexadecimal string (expected 'H')''))"

text \<open>The literal \<^verbatim>\<open>NULL\<close>.\<close>

definition stateN :: "scanner \<Rightarrow> byte \<Rightarrow> (opcode \<times> scanner) option" where
  "stateN s c =
     (if c = CHR ''U'' then Some (ScanContinue, s\<lparr>step := StateNu\<rparr>)
      else Some (scanner_error s c ''in literal NULL (expecting 'U')''))"

definition stateNu :: "scanner \<Rightarrow> byte \<Rightarrow> (opcode \<times> scanner) option" where
  "stateNu s c =
     (if c = CHR ''L'' then Some (ScanContinue, s\<lparr>step := StateNul\<rparr>)
      else Some (scanner_error s c ''in literal NULL (expecting 'L')''))"

definition stateNul :: "scanner \<Rightarrow> byte \<Rightarrow> (opcode \<times> scanner) option" where
  "stateNul s c =
     (if c = CHR ''L'' then Some (ScanContinue, s\<lparr>step := StateEndValue\<rparr>)
      else Some (scanner_error s c ''in literal NULL (expecting 'L')''))"

text \<open>Numbers.\<close>

definition state0 :: "scanner \<Rightarrow> byte \<Rightarrow> (opcode \<times> scanner) option" where
  "state0 s c =
     (if c = CHR ''.'' then Some (ScanContinue, s\<lparr>step := StateDot\<rparr>)
      else if c = CHR ''e'' \<or> c = CHR ''E'' then Some (ScanContinue, s\<lparr>step := StateE\<rparr>)
      else stateEndValue s c)"

definition state1 :: "scanner \<Rightarrow> byte \<Rightarrow> (opcode \<times> scanner) option" where
  "state1 s c =
     (if CHR ''0'' \<le> c \<and> c \<le> CHR ''9'' then Some (ScanContinue, s\<lparr>step := State1\<rparr>)
      else state0 s c)"

definition stateDot :: "scanner \<Rightarrow> byte \<Rightarrow> (opcode \<times> scanner) option" where
  "stateDot s c =
     (if CHR ''0'' \<le> c \<and> c \<le> CHR ''9'' then Some (ScanContinue, s\<lparr>step := StateDot0\<rparr>)
      else Some (scanner_error s c ''after decimal point in numeric literal''))"

definition stateDot0 :: "scanner \<Rightarrow> byte \<Rightarrow> (opcode \<times> scanner) option" where
  "stateDot0 s c =
     (if CHR ''0'' \<le> c \<and> c \<le> CHR ''9'' then Some (ScanContinue, s)
      else if c = CHR ''e'' \<or> c = CHR ''E'' then Some (ScanContinue, s\<lparr>step := StateE\<rparr>)
      else stateEndValue s c)"

definition stateESign :: "scanner \<Rightarrow> byte \<Rightarrow> (opcode \<times> scanner) option" where
  "stateESign s c =
     (if CHR ''0'' \<le> c \<and> c \<le> CHR ''9'' then Some (ScanContinue, s\<lparr>step := StateE0\<rparr>)
      else Some (scanner_error s c ''in exponent of numeric literal''))"

definition stateE :: "scanner \<Rightarrow> byte \<Rightarrow> (opcode \<times> scanner) option" where
  "stateE s c =
     (if c = CHR ''+'' \<or> c = CHR ''-'' then Some (ScanContinue, s\<lparr>step := StateESign\<rparr>)
      else stateESign s c)"

definition stateE0 :: "scanner \<Rightarrow> byte \<Rightarrow> (opcode \<times> scanner) option" where
  "stateE0 s c =
     (if CHR ''0'' \<le> c \<and> c \<le> CHR ''9'' then Some (ScanContinue, s)
      else stateEndValue s c)"

subsection \<open>Calling the current state function\<close>

text \<open>
  The call \<^verbatim>\<open>s.step(s, c)\<close> dispatches on the function value held in \<^verbatim>\<open>step\<close>; calling
  the nil function value panics.
\<close>

fun call :: "state_fn \<Rightarrow> scanner \<Rightarrow> byte \<Rightarrow> (opcode \<times> scanner) option" where
  "call NilFunc s c = None"
| "call StateError s c = stateError s c"
| "call StateBeginValue s c = stateBeginValue s c"
| "call StateEndValue s c = stateEndValue s c"
| "call StateAssignmentOperator1 s c = stateAssignmentOperator1 s c"
| "call StateAssignmentOperator2 s c = stateAssignmentOperator2 s c"
| "call StateBeginName s c = stateBeginName s c"
| "call StateInName s c = stateInName s c"
| "call StateBeginValueName s c = stateBeginValueName s c"
| "call StateInValueName s c = stateInValueName s c"
| "call StateBeginObjectKeyOrEmpty s c = stateBeginObjectKeyOrEmpty s c"
| "call StateBeginObjectKey s c = stateBeginObjectKey s c"
| "call StateInObjectKey s c = stateInObjectKey s c"
| "call StateInOctetString s c = stateInOctetString s c"
| "call StateInHexadecimalString s c = stateInHexadecimalString s c"
| "call StateSuffixAfterHexadecimalString s c = stateSuffixAfterHexadecimalString s c"
| "call StateN s c = stateN s c"
| "call StateNu s c = stateNu s c"
| "call StateNul s c = stateNul s c"
| "call State1 s c = state1 s c"
| "call State0 s c = state0 s c"
| "call StateDot s c = stateDot s c"
| "call StateDot0 s c = stateDot0 s c"
| "call StateE s c = stateE s c"
| "call StateESign s c = stateESign s c"
| "call StateE0 s c = stateE0 s c"
| "call StateBeginTop s c = stateBeginTop s c"
| "call StateEndTop s c = stateEndTop s c"

definition scan_step :: "scanner \<Rightarrow> byte \<Rightarrow> (opcode \<times> scanner) option" where
  "scan_step s c = call (step s) s c"

subsection \<open>End of input and the validation driver\<close>

text \<open>
  \<^verbatim>\<open>scanner.eof\<close>: the opcode returned by the synthesized space is discarded; only the
  flags it leaves behind are read.
\<close>

definition eof :: "scanner \<Rightarrow> (opcode \<times> scanner) option" where
  "eof s =
     (if err s \<noteq> None then Some (ScanError, s)
      else if endTop s then Some (ScanEnd, s)
      else do { (r, s1) \<leftarrow> scan_step s CHR '' '';
                if endTop s1 then Some (ScanEnd, s1)
                else if err s1 = None
                then Some (ScanError,
                       s1\<lparr>err := Some \<lparr>msg = UnexpectedEndOfJSONInput, Offset = bytes s1\<rparr>\<rparr>)
                else Some (ScanError, s1) })"

text \<open>
  The loop of \<^verbatim>\<open>checkValid\<close> over the bytes of \<^verbatim>\<open>data\<close>, followed by the call of
  \<^verbatim>\<open>eof\<close>. The result is the returned error (\<open>None\<close> for \<^verbatim>\<open>nil\<close>) and the scanner as
  the call leaves it.
\<close>

fun checkValid_loop :: "byte list \<Rightarrow> scanner \<Rightarrow> (SyntaxError option \<times> scanner) option" where
  "checkValid_loop [] s =
     do { (r, s1) \<leftarrow> eof s;
          if r = ScanError then Some (err s1, s1) else Some (None, s1) }"
| "checkValid_loop (c # data) s =
     do { (r, s1) \<leftarrow> scan_step (s\<lparr>bytes := bytes s + 1\<rparr>) c;
          if r = ScanError then Some (err s1, s1) else checkValid_loop data s1 }"

definition checkValid :: "byte list \<Rightarrow> scanner \<Rightarrow> (SyntaxError option \<times> scanner) option" where
  "checkValid data scan = checkValid_loop data (reset scan)"

text \<open>
  \<^verbatim>\<open>newScanner\<close> takes a scanner from the pool (a new zero value, or one that an earlier
  scan has returned), zeroes the byte counter, enables multiple top-level values and
  resets it. The pooled scanner is a parameter.
\<close>

definition zero_scanner :: scanner where
  "zero_scanner =
     \<lparr>step = NilFunc, endTop = False, parseState = [], err = None, bytes = 0,
      allowMultipleTopValues = False\<rparr>"

definition newScanner :: "scanner \<Rightarrow> scanner" where
  "newScanner pooled = reset (pooled\<lparr>bytes := 0, allowMultipleTopValues := True\<rparr>)"

text \<open>\<^verbatim>\<open>Valid\<close> reports whether \<^verbatim>\<open>checkValid\<close> returned nil.\<close>

definition Valid :: "byte list \<Rightarrow> scanner \<Rightarrow> bool option" where
  "Valid data pooled =
     do { (e, s) \<leftarrow> checkValid data (newScanner pooled); Some (e = None) }"

text \<open>
  \<^verbatim>\<open>Unmarshal\<close> (decode.go) runs \<^verbatim>\<open>checkValid\<close> on the scanner of a zero-valued
  \<^verbatim>\<open>decodeState\<close> and returns its error; decoding itself is commented out.
\<close>

definition Unmarshal :: "byte list \<Rightarrow> SyntaxError option option" where
  "Unmarshal data = map_option fst (checkValid data zero_scanner)"

subsection \<open>Moving the byte counter\<close>

text \<open>
  The byte counter is read only when an error is recorded. \<open>shiftBytes k\<close> is the same
  scanner with \<open>k\<close> more bytes on its counter, and on the offset of its recorded error.
\<close>

definition shiftOffset :: "int64 \<Rightarrow> SyntaxError \<Rightarrow> SyntaxError" where
  "shiftOffset k e = e\<lparr>Offset := Offset e + k\<rparr>"

definition shiftBytes :: "int64 \<Rightarrow> scanner \<Rightarrow> scanner" where
  "shiftBytes k s = s\<lparr>bytes := bytes s + k, err := map_option (shiftOffset k) (err s)\<rparr>"

section \<open>Properties\<close>

lemmas state_defs =
  stateError_def stateBeginValue_def stateEndValue_def stateAssignmentOperator1_def
  stateAssignmentOperator2_def stateBeginName_def stateInName_def stateBeginValueName_def
  stateInValueName_def stateBeginObjectKeyOrEmpty_def stateBeginObjectKey_def
  stateInObjectKey_def stateInOctetString_def stateInHexadecimalString_def
  stateSuffixAfterHexadecimalString_def stateN_def stateNu_def stateNul_def state1_def
  state0_def stateDot_def stateDot0_def stateE_def stateESign_def stateE0_def
  stateBeginTop_def stateEndTop_def

lemmas stack_defs = scanner_error_def pushParseState_def popParseState_def setTopParseState_def

subsection \<open>The error state\<close>

text \<open>
  Claim C2. Once an error has been recorded by \<^verbatim>\<open>scanner.error\<close> (the error is set and
  \<^verbatim>\<open>step\<close> is the error state), every further step, for every byte, returns
  \<^verbatim>\<open>scanError\<close> and leaves the whole scanner as it is; and \<^verbatim>\<open>scanner.error\<close> leaves
  the scanner in exactly such a state.
\<close>

theorem error_state_absorbing:
  "(err s \<noteq> None \<and> step s = StateError \<longrightarrow> scan_step s c = Some (ScanError, s)) \<and>
   err (snd (scanner_error s0 c0 context)) \<noteq> None \<and>
   step (snd (scanner_error s0 c0 context)) = StateError \<and>
   scan_step (snd (scanner_error s0 c0 context)) c =
     Some (ScanError, snd (scanner_error s0 c0 context))"
  by (simp add: scan_step_def stateError_def scanner_error_def)

theorem error_state_absorbing_witness:
  "err (snd (scanner_error (reset zero_scanner) CHR ''1'' ''looking for beginning of top value''))
     \<noteq> None \<and>
   step (snd (scanner_error (reset zero_scanner) CHR ''1'' ''looking for beginning of top value''))
     = StateError \<and>
   scan_step
     (snd (scanner_error (reset zero_scanner) CHR ''1'' ''looking for beginning of top value''))
     CHR ''a'' =
   Some (ScanError,
     snd (scanner_error (reset zero_scanner) CHR ''1'' ''looking for beginning of top value''))"
  using error_state_absorbing
    [of "snd (scanner_error (reset zero_scanner) CHR ''1''
           ''looking for beginning of top value'')" "CHR ''a''"]
  by (simp add: scanner_error_def)

subsection \<open>Empty and blank input\<close>

lemma loop_spaces:
  "\<forall>c \<in> set ws. isSpace c \<Longrightarrow> step s = StateBeginTop \<Longrightarrow> err s = None \<Longrightarrow> \<not> endTop s \<Longrightarrow>
   checkValid_loop ws s =
     Some (Some \<lparr>msg = UnexpectedEndOfJSONInput, Offset = bytes s + of_nat (length ws)\<rparr>,
           s\<lparr>bytes := bytes s + of_nat (length ws),
             err := Some \<lparr>msg = UnexpectedEndOfJSONInput,
                          Offset = bytes s + of_nat (length ws)\<rparr>\<rparr>)"
proof (induction ws arbitrary: s)
  case Nil
  then show ?case
    by (simp add: eof_def scan_step_def stateBeginTop_def isSpace_def)
next
  case (Cons c ws)
  have sp: "isSpace c" using Cons.prems(1) by simp
  let ?s1 = "s\<lparr>bytes := bytes s + 1\<rparr>"
  have st: "scan_step ?s1 c = Some (ScanSkipSpace, ?s1)"
    using sp Cons.prems(2) by (simp add: scan_step_def stateBeginTop_def)
  have ih: "checkValid_loop ws ?s1 =
     Some (Some \<lparr>msg = UnexpectedEndOfJSONInput, Offset = bytes ?s1 + of_nat (length ws)\<rparr>,
           ?s1\<lparr>bytes := bytes ?s1 + of_nat (length ws),
               err := Some \<lparr>msg = UnexpectedEndOfJSONInput,
                            Offset = bytes ?s1 + of_nat (length ws)\<rparr>\<rparr>)"
    using Cons.prems by (intro Cons.IH) simp_all
  show ?case using st ih by (simp add: add.assoc add.commute)
qed

text \<open>
  Claim C10. For the empty input and for every input made of whitespace bytes only,
  \<^verbatim>\<open>checkValid\<close> returns the error \<^verbatim>\<open>"unexpected end of JSON input"\<close>, whose offset is the
  byte counter after the input (the number of bytes of the input when the counter started
  at zero, as it does in \<^verbatim>\<open>Valid\<close>), and \<^verbatim>\<open>Valid\<close> returns false.
\<close>

theorem blank_input_premature_end:
  assumes "\<forall>c \<in> set ws. isSpace c"
  shows "map_option fst (checkValid ws s) =
           Some (Some \<lparr>msg = UnexpectedEndOfJSONInput, Offset = bytes s + of_nat (length ws)\<rparr>) \<and>
         map_option fst (checkValid ws (newScanner pooled)) =
           Some (Some \<lparr>msg = UnexpectedEndOfJSONInput, Offset = of_nat (length ws)\<rparr>) \<and>
         Valid ws pooled = Some False"
  using loop_spaces[OF assms, of "reset s"] loop_spaces[OF assms, of "newScanner pooled"]
  by (simp add: checkValid_def Valid_def newScanner_def reset_def)

theorem blank_input_premature_end_witness:
  "isSpace CHR '' '' \<and> isSpace CHR 0x0A \<and>
   map_option fst (checkValid [CHR '' '', CHR 0x0A] zero_scanner) =
     Some (Some \<lparr>msg = UnexpectedEndOfJSONInput, Offset = 2\<rparr>) \<and>
   Valid [CHR '' '', CHR 0x0A] zero_scanner = Some False \<and>
   Valid [] zero_scanner = Some False"
  using blank_input_premature_end[of "[CHR '' '', CHR 0x0A]" zero_scanner zero_scanner]
    blank_input_premature_end[of "[]" zero_scanner zero_scanner]
  by (simp add: isSpace_def zero_scanner_def)

subsection \<open>Input that ends inside an open record\<close>

text \<open>
  Claim C3. An input cut off inside an open record should be answered with the
  premature-end error. The code answers the input \<^verbatim>\<open>ab C ::= v : {\<close> with \<^verbatim>\<open>nil\<close>:
  \<^verbatim>\<open>popParseState\<close> sets \<^verbatim>\<open>endTop\<close> when the tag of the identifier is popped and the stack
  becomes empty, nothing clears the flag afterwards, and \<^verbatim>\<open>eof\<close> returns \<^verbatim>\<open>scanEnd\<close> as
  soon as it finds the flag set. The scanner is left inside the record, with one entry
  on the stack.
\<close>

theorem truncated_record_is_accepted:
  "checkValid ''ab C ::= v : {'' (newScanner pooled) =
     Some (None,
       \<lparr>step = StateBeginObjectKeyOrEmpty, endTop = True, parseState = [ParseObjectKey],
        err = None, bytes = 14, allowMultipleTopValues = True\<rparr>) \<and>
   Valid ''ab C ::= v : {'' pooled = Some True \<and>
   Unmarshal ''ab C ::= v : {'' = Some None"
  by (simp add: Valid_def Unmarshal_def checkValid_def newScanner_def reset_def zero_scanner_def
      eof_def scan_step_def state_defs stack_defs maxNestingDepth_def
      isSpace_def isAlpha_def isDigit_def isLiteral_def)

subsection \<open>Bytes after the top-level value\<close>

text \<open>
  Claim C4. With \<^verbatim>\<open>allowMultipleTopValues\<close> false (the scanner of \<^verbatim>\<open>Unmarshal\<close>), a byte
  that is not whitespace after the completed top-level value should be an error. In the
  code \<^verbatim>\<open>stateEndTop\<close> returns \<^verbatim>\<open>scanEnd\<close> for it and records nothing, so \<^verbatim>\<open>checkValid\<close>
  returns \<^verbatim>\<open>nil\<close> on \<^verbatim>\<open>ab C ::= v : 1 x\<close>. With the flag true the byte is consumed by
  \<^verbatim>\<open>stateEndTop\<close> and the next top-level value starts with the byte after it.
\<close>

theorem byte_after_top_value_is_accepted:
  "Unmarshal ''ab C ::= v : 1 x'' = Some None \<and>
   stateEndTop (s\<lparr>allowMultipleTopValues := False\<rparr>) CHR ''x'' =
     Some (ScanEnd, s\<lparr>allowMultipleTopValues := False\<rparr>) \<and>
   stateEndTop (s\<lparr>allowMultipleTopValues := True\<rparr>) CHR ''x'' =
     Some (ScanContinue, s\<lparr>allowMultipleTopValues := True, step := StateBeginTop\<rparr>)"
  by (simp add: Unmarshal_def checkValid_def reset_def zero_scanner_def
      eof_def scan_step_def state_defs stack_defs maxNestingDepth_def
      isSpace_def isAlpha_def isDigit_def isLiteral_def)

subsection \<open>The digit zero\<close>

text \<open>
  Claim C9. A record member whose value is the single digit \<^verbatim>\<open>0\<close> should be accepted. The
  code rejects \<^verbatim>\<open>ab C ::= v : { a 0 }\<close> at the byte \<^verbatim>\<open>0\<close>: \<^verbatim>\<open>stateBeginValue\<close> starts a
  number only at the digits \<^verbatim>\<open>1\<close> to \<^verbatim>\<open>9\<close>, and \<^verbatim>\<open>state0\<close>, the state after reading \<^verbatim>\<open>0\<close>,
  is never installed as a step. The same record with \<^verbatim>\<open>10\<close> is accepted.
\<close>

theorem single_zero_is_rejected:
  "map_option fst (checkValid ''ab C ::= v : { a 0 }'' (newScanner pooled)) =
     Some (Some \<lparr>msg = InvalidCharacter CHR ''0'' ''looking for beginning of value'',
                 Offset = 18\<rparr>) \<and>
   Valid ''ab C ::= v : { a 0 }'' pooled = Some False \<and>
   Valid ''ab C ::= v : { a 10 }'' pooled = Some True \<and>
   stateBeginValue s CHR ''0'' = Some (scanner_error s CHR ''0'' ''looking for beginning of value'')"
  by (simp add: Valid_def checkValid_def newScanner_def reset_def
      eof_def scan_step_def state_defs stack_defs maxNestingDepth_def
      isSpace_def isAlpha_def isDigit_def isLiteral_def)

subsection \<open>Scanning again on the same instance\<close>

lemma shift_fields:
  "step (shiftBytes k s) = step s"
  "endTop (shiftBytes k s) = endTop s"
  "parseState (shiftBytes k s) = parseState s"
  "allowMultipleTopValues (shiftBytes k s) = allowMultipleTopValues s"
  "bytes (shiftBytes k s) = bytes s + k"
  "err (shiftBytes k s) = map_option (shiftOffset k) (err s)"
  by (simp_all add: shiftBytes_def)

lemma shift_updates:
  "(shiftBytes k s)\<lparr>step := x\<rparr> = shiftBytes k (s\<lparr>step := x\<rparr>)"
  "(shiftBytes k s)\<lparr>endTop := y\<rparr> = shiftBytes k (s\<lparr>endTop := y\<rparr>)"
  "(shiftBytes k s)\<lparr>parseState := z\<rparr> = shiftBytes k (s\<lparr>parseState := z\<rparr>)"
  by (simp_all add: shiftBytes_def)

lemma error_shift:
  "scanner_error (shiftBytes k s) c ctx = apsnd (shiftBytes k) (scanner_error s c ctx)"
  by (simp add: scanner_error_def shiftBytes_def shiftOffset_def)

lemma push_shift:
  "pushParseState (shiftBytes k s) c p r = apsnd (shiftBytes k) (pushParseState s c p r)"
  by (simp add: pushParseState_def Let_def shift_fields shift_updates error_shift)

lemma pop_shift:
  "popParseState (shiftBytes k s) = map_option (shiftBytes k) (popParseState s)"
  by (simp add: popParseState_def Let_def shift_fields shift_updates)

lemma setTop_shift:
  "setTopParseState (shiftBytes k s) p = map_option (shiftBytes k) (setTopParseState s p)"
  by (simp add: setTopParseState_def shift_fields shift_updates)

lemmas shift_simps = shift_fields shift_updates error_shift push_shift pop_shift setTop_shift

lemma bind_map_shift: "Option.bind (map_option f x) g = Option.bind x (\<lambda>y. g (f y))"
  by (cases x) simp_all

lemma map_bind_shift: "map_option f (Option.bind x g) = Option.bind x (\<lambda>y. map_option f (g y))"
  by (cases x) simp_all

lemma stateEndTop_shift:
  "stateEndTop (shiftBytes k s) c = map_option (apsnd (shiftBytes k)) (stateEndTop s c)"
  by (simp add: stateEndTop_def shift_simps)

lemma stateEndValue_shift:
  "stateEndValue (shiftBytes k s) c = map_option (apsnd (shiftBytes k)) (stateEndValue s c)"
proof (cases "parseState s = [] \<or> isSpace c")
  case True
  then show ?thesis
    by (auto simp add: stateEndValue_def Let_def shift_simps stateEndTop_shift)
next
  case False
  then show ?thesis
    by (cases "parseState s ! (length (parseState s) - 1)"; cases "popParseState s")
       (simp_all add: stateEndValue_def Let_def shift_simps bind_map_shift map_bind_shift)
qed

lemma step_shift:
  "scan_step (shiftBytes k s) c = map_option (apsnd (shiftBytes k)) (scan_step s c)"
  unfolding scan_step_def shift_fields
  by (cases "step s")
     (simp_all add: state_defs(1,2,4-) shift_simps stateEndValue_shift
        bind_map_shift map_bind_shift)

lemma eof_shift:
  "eof (shiftBytes k s) = map_option (apsnd (shiftBytes k)) (eof s)"
proof (cases "scan_step s CHR '' ''")
  case None
  then show ?thesis by (simp add: eof_def step_shift shift_fields)
next
  case (Some a)
  obtain r s1 where a: "a = (r, s1)" by (cases a)
  have u: "(shiftBytes k s1)\<lparr>err := Some \<lparr>msg = UnexpectedEndOfJSONInput, Offset = bytes s1 + k\<rparr>\<rparr>
     = shiftBytes k (s1\<lparr>err := Some \<lparr>msg = UnexpectedEndOfJSONInput, Offset = bytes s1\<rparr>\<rparr>)"
    by (simp add: shiftBytes_def shiftOffset_def)
  show ?thesis using Some a u by (simp add: eof_def step_shift shift_fields)
qed

lemma loop_shift:
  "checkValid_loop data (shiftBytes k s) =
     map_option (\<lambda>(e, s'). (map_option (shiftOffset k) e, shiftBytes k s'))
       (checkValid_loop data s)"
proof (induction data arbitrary: s)
  case Nil
  show ?case
    by (cases "eof s") (auto simp add: eof_shift shift_fields)
next
  case (Cons c data)
  have b: "(shiftBytes k s)\<lparr>bytes := bytes s + k + 1\<rparr> = shiftBytes k (s\<lparr>bytes := bytes s + 1\<rparr>)"
    by (simp add: shiftBytes_def)
  show ?case
    by (cases "scan_step (s\<lparr>bytes := bytes s + 1\<rparr>) c")
       (auto simp add: b step_shift shift_fields Cons.IH)
qed

lemma error_allow:
  "allowMultipleTopValues (snd (scanner_error s c ctx)) = allowMultipleTopValues s"
  by (simp add: scanner_error_def)

lemma push_allow:
  "allowMultipleTopValues (snd (pushParseState s c p r)) = allowMultipleTopValues s"
  by (simp add: pushParseState_def Let_def error_allow)

lemma pop_allow:
  "popParseState s = Some s' \<Longrightarrow> allowMultipleTopValues s' = allowMultipleTopValues s"
  by (auto simp: popParseState_def Let_def split: if_splits)

lemma setTop_allow:
  "setTopParseState s p = Some s' \<Longrightarrow> allowMultipleTopValues s' = allowMultipleTopValues s"
  by (auto simp: setTopParseState_def split: if_splits)

lemma stateEndTop_allow:
  "stateEndTop s c = Some (r, s') \<Longrightarrow> allowMultipleTopValues s' = allowMultipleTopValues s"
  by (auto simp: stateEndTop_def split: if_splits)

lemma pair_allow:
  "(r, s') = scanner_error s c ctx \<Longrightarrow> allowMultipleTopValues s' = allowMultipleTopValues s"
  "(r, s') = pushParseState s c p r0 \<Longrightarrow> allowMultipleTopValues s' = allowMultipleTopValues s"
  using error_allow[of s c ctx] push_allow[of s c p r0] by (metis snd_conv)+

lemma stateEndValue_allow:
  "stateEndValue s c = Some (r, s') \<Longrightarrow> allowMultipleTopValues s' = allowMultipleTopValues s"
  by (cases "parseState s ! (length (parseState s) - 1)")
     (auto simp: stateEndValue_def Let_def split: if_splits bind_splits
        dest!: pop_allow stateEndTop_allow pair_allow pair_allow[OF sym])

lemma step_allow:
  "scan_step s c = Some (r, s') \<Longrightarrow> allowMultipleTopValues s' = allowMultipleTopValues s"
  unfolding scan_step_def
  by (cases "step s")
     (auto simp: state_defs(1,2,4-) split: if_splits bind_splits
        dest!: pop_allow setTop_allow stateEndValue_allow pair_allow pair_allow[OF sym])

lemma eof_allow:
  "eof s = Some (r, s') \<Longrightarrow> allowMultipleTopValues s' = allowMultipleTopValues s"
  by (auto simp: eof_def split: if_splits bind_splits dest!: step_allow)

lemma loop_allow:
  "checkValid_loop data s = Some (e, s') \<Longrightarrow> allowMultipleTopValues s' = allowMultipleTopValues s"
proof (induction data arbitrary: s)
  case Nil
  then show ?case by (auto split: bind_splits if_splits dest!: eof_allow)
next
  case (Cons c data)
  then show ?case by (auto split: bind_splits if_splits dest!: step_allow)
qed

lemma reset_after:
  "allowMultipleTopValues s1 = allowMultipleTopValues s \<Longrightarrow>
   reset s1 = shiftBytes (bytes s1 - bytes s) (reset s)"
  by (simp add: reset_def shiftBytes_def)

lemma newScanner_const: "newScanner s1 = newScanner s2"
  by (simp add: newScanner_def reset_def)

text \<open>
  Claim C5, as it holds. A second scan of the same input on the same instance returns the
  same verdict and, on failure, the same message; the offset of the error is larger by
  the number of bytes the counter has advanced during the first scan, because
  \<^verbatim>\<open>reset\<close> keeps the counter. In particular an accepted input is accepted again. A
  scanner obtained from \<^verbatim>\<open>newScanner\<close>, which zeroes the counter, does not depend on the
  pooled instance at all, so \<^verbatim>\<open>Valid\<close> gives the same answer whatever was scanned on the
  instance before.
\<close>

theorem rescan_shifts_offset:
  "(checkValid data s = Some (e1, s1) \<longrightarrow>
      map_option fst (checkValid data s1) =
        Some (map_option (shiftOffset (bytes s1 - bytes s)) e1)) \<and>
   (checkValid data s = Some (None, s1) \<longrightarrow> map_option fst (checkValid data s1) = Some None) \<and>
   checkValid data (newScanner s1) = checkValid data (newScanner pooled) \<and>
   Valid data s1 = Valid data pooled"
proof -
  have a: "map_option fst (checkValid data s1) =
        Some (map_option (shiftOffset (bytes s1 - bytes s)) e)"
    if h: "checkValid data s = Some (e, s1)" for e
  proof -
    have "allowMultipleTopValues s1 = allowMultipleTopValues (reset s)"
      using h loop_allow[of data "reset s" e s1] by (simp add: checkValid_def)
    then have "allowMultipleTopValues s1 = allowMultipleTopValues s" by (simp add: reset_def)
    then have "reset s1 = shiftBytes (bytes s1 - bytes s) (reset s)" by (rule reset_after)
    then show ?thesis using h by (simp add: checkValid_def loop_shift)
  qed
  have b: "newScanner s1 = newScanner pooled" by (rule newScanner_const)
  show ?thesis using a[of e1] a[of None] b by (simp add: Valid_def)
qed

theorem rescan_shifts_offset_witness:
  "checkValid ''1'' (newScanner zero_scanner) =
     Some (Some \<lparr>msg = InvalidCharacter CHR ''1'' ''looking for beginning of top value'', Offset = 1\<rparr>,
           \<lparr>step = StateError, endTop = False, parseState = [],
            err = Some \<lparr>msg = InvalidCharacter CHR ''1'' ''looking for beginning of top value'', Offset = 1\<rparr>,
            bytes = 1, allowMultipleTopValues = True\<rparr>) \<and>
   map_option fst (checkValid ''1''
           \<lparr>step = StateError, endTop = False, parseState = [],
            err = Some \<lparr>msg = InvalidCharacter CHR ''1'' ''looking for beginning of top value'', Offset = 1\<rparr>,
            bytes = 1, allowMultipleTopValues = True\<rparr>) =
     Some (Some \<lparr>msg = InvalidCharacter CHR ''1'' ''looking for beginning of top value'', Offset = 2\<rparr>)"
proof -
  have h: "checkValid ''1'' (newScanner zero_scanner) =
     Some (Some \<lparr>msg = InvalidCharacter CHR ''1'' ''looking for beginning of top value'', Offset = 1\<rparr>,
           \<lparr>step = StateError, endTop = False, parseState = [],
            err = Some \<lparr>msg = InvalidCharacter CHR ''1'' ''looking for beginning of top value'', Offset = 1\<rparr>,
            bytes = 1, allowMultipleTopValues = True\<rparr>)"
    by (simp add: checkValid_def newScanner_def reset_def zero_scanner_def
      scan_step_def stateBeginTop_def scanner_error_def isSpace_def isAlpha_def)
  show ?thesis
    using h rescan_shifts_offset[of "''1''" "newScanner zero_scanner", THEN conjunct1, rule_format, OF h]
    by (simp add: shiftOffset_def newScanner_def reset_def zero_scanner_def)
qed

text \<open>
  Claim C5, as stated, fails: the input \<^verbatim>\<open>1\<close> is rejected at offset 1 on a fresh
  instance, and at offset 2 when the same instance scans it again after \<^verbatim>\<open>reset\<close>.
\<close>

theorem rescan_same_offset_counterexample:
  "checkValid ''1'' (newScanner zero_scanner) =
     Some (Some \<lparr>msg = InvalidCharacter CHR ''1'' ''looking for beginning of top value'', Offset = 1\<rparr>,
           \<lparr>step = StateError, endTop = False, parseState = [],
            err = Some \<lparr>msg = InvalidCharacter CHR ''1'' ''looking for beginning of top value'', Offset = 1\<rparr>,
            bytes = 1, allowMultipleTopValues = True\<rparr>) \<and>
   map_option fst (checkValid ''1''
        (reset \<lparr>step = StateError, endTop = False, parseState = [],
            err = Some \<lparr>msg = InvalidCharacter CHR ''1'' ''looking for beginning of top value'', Offset = 1\<rparr>,
            bytes = 1, allowMultipleTopValues = True\<rparr>)) =
     Some (Some \<lparr>msg = InvalidCharacter CHR ''1'' ''looking for beginning of top value'', Offset = 2\<rparr>) \<and>
   map_option fst (checkValid ''1'' (newScanner zero_scanner)) \<noteq>
   map_option fst (checkValid ''1''
        (reset \<lparr>step = StateError, endTop = False, parseState = [],
            err = Some \<lparr>msg = InvalidCharacter CHR ''1'' ''looking for beginning of top value'', Offset = 1\<rparr>,
            bytes = 1, allowMultipleTopValues = True\<rparr>))"
  by (simp add: checkValid_def newScanner_def reset_def zero_scanner_def
      scan_step_def stateBeginTop_def scanner_error_def isSpace_def isAlpha_def)

subsection \<open>The nesting limit\<close>

lemmas byte_defs = isSpace_def isAlpha_def isDigit_def isLiteral_def

lemma header_ab:
  "step s = StateBeginTop \<Longrightarrow> parseState s = [] \<Longrightarrow>
   checkValid_loop (''ab C ::= v : '' @ rest) s =
   checkValid_loop rest (s\<lparr>bytes := bytes s + 13, step := StateBeginValue, endTop := True\<rparr>)"
  by (cases s)
     (simp add: scan_step_def state_defs stack_defs maxNestingDepth_def byte_defs ac_simps)

lemma push_below:
  "length (parseState s) < maxNestingDepth \<Longrightarrow>
   pushParseState s c p r = (r, s\<lparr>parseState := parseState s @ [p]\<rparr>)"
  by (simp add: pushParseState_def)

lemma push_at_limit:
  "maxNestingDepth \<le> length (parseState s) \<Longrightarrow>
   pushParseState s c p r =
     (ScanError, s\<lparr>parseState := parseState s @ [p], step := StateError,
        err := Some \<lparr>msg = InvalidCharacter c ''exceeded max depth'', Offset = bytes s\<rparr>\<rparr>)"
  by (simp add: pushParseState_def scanner_error_def)

lemma inner_braces:
  "m + n < maxNestingDepth \<Longrightarrow> step s = StateBeginObjectKeyOrEmpty \<Longrightarrow>
   parseState s = replicate m ParseObjectValue @ [ParseObjectKey] \<Longrightarrow>
   checkValid_loop (replicate n CHR ''{'' @ rest) s =
   checkValid_loop rest
     (s\<lparr>bytes := bytes s + of_nat n,
        parseState := replicate (m + n) ParseObjectValue @ [ParseObjectKey]\<rparr>)"
proof (induction n arbitrary: s m)
  case 0
  then show ?case by (cases s) simp
next
  case (Suc n)
  let ?s1 = "s\<lparr>bytes := bytes s + 1,
     parseState := replicate (Suc m) ParseObjectValue @ [ParseObjectKey]\<rparr>"
  have len: "length (parseState s) < maxNestingDepth" using Suc.prems by simp
  have upd: "(parseState s)[length (parseState s) - 1 := ParseObjectValue] @ [ParseObjectKey]
      = replicate (Suc m) ParseObjectValue @ [ParseObjectKey]"
    using Suc.prems(3) by (simp add: list_update_append replicate_append_same)
  have st: "scan_step (s\<lparr>bytes := bytes s + 1\<rparr>) CHR ''{'' = Some (ScanBeginObject, ?s1)"
    using Suc.prems(2,3) len upd
    by (simp add: scan_step_def stateBeginObjectKeyOrEmpty_def setTopParseState_def
          push_below isSpace_def)
  have ih: "checkValid_loop (replicate n CHR ''{'' @ rest) ?s1 =
     checkValid_loop rest (?s1\<lparr>bytes := bytes ?s1 + of_nat n,
        parseState := replicate (Suc m + n) ParseObjectValue @ [ParseObjectKey]\<rparr>)"
    using Suc.prems by (intro Suc.IH) simp_all
  show ?case using st ih by (cases s) (simp add: ac_simps)
qed

lemma braces:
  "n < maxNestingDepth \<Longrightarrow> step s = StateBeginValue \<Longrightarrow> parseState s = [] \<Longrightarrow>
   checkValid_loop (replicate (Suc n) CHR ''{'' @ rest) s =
   checkValid_loop rest
     (s\<lparr>bytes := bytes s + of_nat (Suc n), step := StateBeginObjectKeyOrEmpty,
        parseState := replicate n ParseObjectValue @ [ParseObjectKey]\<rparr>)"
proof -
  assume a: "n < maxNestingDepth" "step s = StateBeginValue" "parseState s = []"
  let ?s1 = "s\<lparr>bytes := bytes s + 1, step := StateBeginObjectKeyOrEmpty,
     parseState := [ParseObjectKey]\<rparr>"
  have st: "scan_step (s\<lparr>bytes := bytes s + 1\<rparr>) CHR ''{'' = Some (ScanBeginObject, ?s1)"
    using a by (simp add: scan_step_def stateBeginValue_def push_below isSpace_def)
  have "checkValid_loop (replicate n CHR ''{'' @ rest) ?s1 =
     checkValid_loop rest (?s1\<lparr>bytes := bytes ?s1 + of_nat n,
        parseState := replicate (0 + n) ParseObjectValue @ [ParseObjectKey]\<rparr>)"
    using a by (intro inner_braces) simp_all
  then show ?thesis using st by (cases s) (simp add: ac_simps)
qed

text \<open>
  Claim C6. A push onto a stack of fewer than \<^verbatim>\<open>maxNestingDepth\<close> entries succeeds, so a
  stack of exactly 10000 entries is reached without error; a push onto a stack of
  10000 entries records the error \<^verbatim>\<open>"exceeded max depth"\<close> for the byte that is being
  scanned, at the current value of the byte counter. On input: after the header
  \<^verbatim>\<open>ab C ::= v : \<close> (13 bytes, which leave the stack empty) 10000 opening braces are
  scanned without error and leave 10000 entries on the stack, and one more opening brace
  fails with the depth error at offset 10014, the offset of that brace.
\<close>

theorem nesting_depth_limit:
  "(length (parseState s) < maxNestingDepth \<longrightarrow>
      pushParseState s c p r = (r, s\<lparr>parseState := parseState s @ [p]\<rparr>)) \<and>
   (length (parseState s) = maxNestingDepth \<longrightarrow>
      pushParseState s c p r =
        (ScanError, s\<lparr>parseState := parseState s @ [p], step := StateError,
           err := Some \<lparr>msg = InvalidCharacter c ''exceeded max depth'', Offset = bytes s\<rparr>\<rparr>)) \<and>
   checkValid (''ab C ::= v : '' @ replicate maxNestingDepth CHR ''{'') (newScanner pooled) =
     Some (None,
       \<lparr>step = StateBeginObjectKeyOrEmpty, endTop = True,
        parseState = replicate (maxNestingDepth - 1) ParseObjectValue @ [ParseObjectKey],
        err = None, bytes = 10013, allowMultipleTopValues = True\<rparr>) \<and>
   map_option fst
     (checkValid (''ab C ::= v : '' @ replicate (maxNestingDepth + 1) CHR ''{'')
        (newScanner pooled)) =
     Some (Some \<lparr>msg = InvalidCharacter CHR ''{'' ''exceeded max depth'', Offset = 10014\<rparr>)"
proof -
  define n where "n = maxNestingDepth - 1"
  have n: "maxNestingDepth = Suc n" "n < maxNestingDepth"
    by (simp_all add: n_def maxNestingDepth_def)
  have ofn: "(of_nat n :: int64) = 9999"
    by (simp add: n_def maxNestingDepth_def)
  let ?s0 = "\<lparr>step = StateBeginValue, endTop = True, parseState = [], err = None,
              bytes = 13, allowMultipleTopValues = True\<rparr>"
  let ?s1 = "\<lparr>step = StateBeginObjectKeyOrEmpty, endTop = True,
              parseState = replicate n ParseObjectValue @ [ParseObjectKey], err = None,
              bytes = 10013, allowMultipleTopValues = True\<rparr>"
  have p: "step (newScanner pooled) = StateBeginTop" "parseState (newScanner pooled) = []"
    by (simp_all add: newScanner_def reset_def)
  have s0: "(newScanner pooled)\<lparr>bytes := bytes (newScanner pooled) + 13,
              step := StateBeginValue, endTop := True\<rparr> = ?s0"
    by (cases pooled) (simp add: newScanner_def reset_def)
  have h: "checkValid_loop (''ab C ::= v : '' @ rest) (newScanner pooled) =
           checkValid_loop rest ?s0" for rest
    using header_ab[OF p, of rest] unfolding s0 .
  have b: "checkValid_loop (replicate (Suc n) CHR ''{'' @ rest) ?s0 = checkValid_loop rest ?s1"
    for rest
    using braces[of n ?s0 rest] n(2) ofn by simp
  have e: "checkValid_loop [] ?s1 = Some (None, ?s1)"
    by (simp add: eof_def)
  have len: "length (parseState ?s1) = maxNestingDepth" using n(1) by simp
  have f: "map_option fst (checkValid_loop [CHR ''{''] ?s1) =
     Some (Some \<lparr>msg = InvalidCharacter CHR ''{'' ''exceeded max depth'', Offset = 10014\<rparr>)"
    using n(1)
    by (simp add: scan_step_def stateBeginObjectKeyOrEmpty_def setTopParseState_def
         push_at_limit isSpace_def)
  have t3: "checkValid (''ab C ::= v : '' @ replicate maxNestingDepth CHR ''{'') (newScanner pooled) =
     Some (None, ?s1)"
  proof -
    have "checkValid (''ab C ::= v : '' @ replicate maxNestingDepth CHR ''{'') (newScanner pooled)
        = checkValid_loop (''ab C ::= v : '' @ (replicate (Suc n) CHR ''{'' @ [])) (newScanner pooled)"
      unfolding checkValid_def n(1) by (simp add: newScanner_def reset_def)
    also have "\<dots> = checkValid_loop (replicate (Suc n) CHR ''{'' @ []) ?s0" by (rule h)
    also have "\<dots> = checkValid_loop [] ?s1" by (rule b)
    also have "\<dots> = Some (None, ?s1)" by (rule e)
    finally show ?thesis .
  qed
  have t4: "map_option fst
     (checkValid (''ab C ::= v : '' @ replicate (maxNestingDepth + 1) CHR ''{'')
        (newScanner pooled)) =
     Some (Some \<lparr>msg = InvalidCharacter CHR ''{'' ''exceeded max depth'', Offset = 10014\<rparr>)"
  proof -
    have r: "replicate (maxNestingDepth + 1) CHR ''{'' = replicate (Suc n) CHR ''{'' @ [CHR ''{'']"
      unfolding n(1) by (simp add: replicate_append_same)
    have "checkValid (''ab C ::= v : '' @ replicate (maxNestingDepth + 1) CHR ''{'') (newScanner pooled)
        = checkValid_loop (''ab C ::= v : '' @ (replicate (Suc n) CHR ''{'' @ [CHR ''{''])) (newScanner pooled)"
      unfolding checkValid_def r by (simp add: newScanner_def reset_def)
    also have "\<dots> = checkValid_loop (replicate (Suc n) CHR ''{'' @ [CHR ''{'']) ?s0" by (rule h)
    also have "\<dots> = checkValid_loop [CHR ''{''] ?s1" by (rule b)
    finally show ?thesis using f by simp
  qed
  show ?thesis using t3 t4 by (simp add: push_below push_at_limit n_def)
qed

theorem nesting_depth_limit_witness:
  "length (parseState (reset zero_scanner)) < maxNestingDepth \<and>
   pushParseState (reset zero_scanner) CHR ''{'' ParseObjectKey ScanBeginObject =
     (ScanBeginObject, (reset zero_scanner)\<lparr>parseState := [ParseObjectKey]\<rparr>) \<and>
   length (parseState (zero_scanner\<lparr>parseState := replicate maxNestingDepth ParseObjectValue\<rparr>))
     = maxNestingDepth \<and>
   fst (pushParseState (zero_scanner\<lparr>parseState := replicate maxNestingDepth ParseObjectValue\<rparr>)
     CHR ''{'' ParseObjectKey ScanBeginObject) = ScanError \<and>
   err (snd (pushParseState
     (zero_scanner\<lparr>parseState := replicate maxNestingDepth ParseObjectValue\<rparr>)
     CHR ''{'' ParseObjectKey ScanBeginObject)) =
     Some \<lparr>msg = InvalidCharacter CHR ''{'' ''exceeded max depth'', Offset = 0\<rparr>"
proof -
  have h1: "length (parseState (reset zero_scanner)) < maxNestingDepth"
    by (simp add: reset_def maxNestingDepth_def)
  have h2: "length (parseState (zero_scanner\<lparr>parseState := replicate maxNestingDepth ParseObjectValue\<rparr>))
     = maxNestingDepth" by simp
  show ?thesis
    using h1 h2
      nesting_depth_limit[of "reset zero_scanner" "CHR ''{''" ParseObjectKey ScanBeginObject,
        THEN conjunct1, rule_format, OF h1]
      nesting_depth_limit[of "zero_scanner\<lparr>parseState := replicate maxNestingDepth ParseObjectValue\<rparr>"
        "CHR ''{''" ParseObjectKey ScanBeginObject,
        THEN conjunct2, THEN conjunct1, rule_format, OF h2]
    by (simp add: reset_def zero_scanner_def)
qed

end
